theory Spec2Isabelle
  imports Main
begin

section \<open>The deployment notebook of marvin: data, routes and the to-do handler\<close>

text \<open>
  The source is \<^verbatim>\<open>docs/src/docs/deployment.ipynb\<close>. Its first code cell declares
  two AI functions and the model \<^verbatim>\<open>Person\<close> and registers three routes; its third
  code cell declares \<^verbatim>\<open>ToDo\<close>, \<^verbatim>\<open>ToDoState\<close>, \<^verbatim>\<open>ToDoResponse\<close> and the handler
  \<^verbatim>\<open>run\<close>. The classes are pydantic models and the routes are FastAPI routes; what
  these two libraries do with the declarations (defaults, validation, serialisation,
  parameter binding) is written out below as functions, once for each declaration of
  the notebook.
\<close>

subsection \<open>JSON values, dates and errors\<close>

datatype json =
    JNull
  | JBool bool
  | JNumber int
  | JString string
  | JArray "json list"
  | JObject "(string \<times> json) list"

text \<open>A \<^verbatim>\<open>datetime\<close> without time zone and without microseconds.\<close>

record datetime =
  year :: nat
  month :: nat
  day :: nat
  hour :: nat
  minute :: nat
  second :: nat

text \<open>
  One entry of a pydantic \<^verbatim>\<open>ValidationError\<close>: the field and what is wrong with it.
  A validation reports every failing field, not only the first.
\<close>

datatype verr = Missing string | WrongType string

datatype error =
    ValidationError "verr list"          \<comment> \<open>raised by a model constructor\<close>
  | RequestValidationError "verr list"   \<comment> \<open>raised by FastAPI before the handler runs\<close>
  | AIError string                       \<comment> \<open>whatever the AI application raises\<close>

subsection \<open>The class declarations as written\<close>

text \<open>
  The annotation and the default expression of every field, transcribed from the
  \<^verbatim>\<open>class\<close> statements of the notebook in the order of the cells.
\<close>

datatype pytype = Str | Int | Bool | Datetime | ListOf pytype | ModelOf string

datatype default_expr = Required | DefaultNone | DefaultFalse | DefaultEmptyList | DefaultCall string

record field_decl =
  field_name :: string
  field_type :: pytype
  field_default :: default_expr

record model_decl =
  model_name :: string
  model_fields :: "field_decl list"

definition Person_decl :: model_decl where
  "Person_decl = \<lparr>model_name = ''Person'', model_fields =
     [\<lparr>field_name = ''first_name'', field_type = Str, field_default = Required\<rparr>,
      \<lparr>field_name = ''last_name'', field_type = Str, field_default = Required\<rparr>]\<rparr>"

definition ToDo_decl :: model_decl where
  "ToDo_decl = \<lparr>model_name = ''ToDo'', model_fields =
     [\<lparr>field_name = ''title'', field_type = Str, field_default = Required\<rparr>,
      \<lparr>field_name = ''description'', field_type = Str, field_default = Required\<rparr>,
      \<lparr>field_name = ''due_date'', field_type = Datetime, field_default = DefaultNone\<rparr>,
      \<lparr>field_name = ''done'', field_type = Bool, field_default = DefaultFalse\<rparr>]\<rparr>"

definition ToDoState_decl :: model_decl where
  "ToDoState_decl = \<lparr>model_name = ''ToDoState'', model_fields =
     [\<lparr>field_name = ''todos'', field_type = ListOf (ModelOf ''ToDo''),
       field_default = DefaultEmptyList\<rparr>]\<rparr>"

definition ToDoResponse_decl :: model_decl where
  "ToDoResponse_decl = \<lparr>model_name = ''ToDoResponse'', model_fields =
     [\<lparr>field_name = ''content'', field_type = Str, field_default = Required\<rparr>,
      \<lparr>field_name = ''state'', field_type = ModelOf ''ToDoState'', field_default = Required\<rparr>]\<rparr>"

text \<open>The models of the declarative-gateway cell and of the to-do cell.\<close>

definition gateway_models :: "model_decl list" where
  "gateway_models = [Person_decl]"

definition todo_models :: "model_decl list" where
  "todo_models = [ToDo_decl, ToDoState_decl, ToDoResponse_decl]"

definition notebook_models :: "model_decl list" where
  "notebook_models = gateway_models @ todo_models"

subsection \<open>The models as records\<close>

text \<open>
  \<^verbatim>\<open>due_date: datetime = None\<close>: the default is not validated against the annotation,
  so the field holds either a datetime or \<^verbatim>\<open>None\<close>.
\<close>

record ToDo =
  title :: string
  description :: string
  due_date :: "datetime option"
  "done" :: bool

text \<open>
  \<^verbatim>\<open>todos: list[ToDo]\<close>. The type parameter says how the list is held: \<open>ToDo list\<close> is the
  list itself (the data as validated and serialised), a reference is a list object in
  the store (an instance at run time, see below).
\<close>

record 'l ToDoState =
  todos :: 'l

record 'l ToDoResponse =
  content :: string
  state :: "'l ToDoState"

subsection \<open>Constructing a \<^verbatim>\<open>ToDo\<close> from keyword arguments\<close>

text \<open>
  Each argument is \<open>None\<close> when the keyword is left out. Required fields that are left
  out are all reported; a field with a default takes the default as it is.
\<close>

definition ToDo_init ::
  "string option \<Rightarrow> string option \<Rightarrow> datetime option \<Rightarrow> bool option \<Rightarrow> error + ToDo" where
  "ToDo_init title_kw description_kw due_date_kw done_kw =
     (case (title_kw, description_kw) of
        (Some t, Some d) \<Rightarrow>
          Inr \<lparr>title = t, description = d,
               due_date = (case due_date_kw of None \<Rightarrow> None | Some dt \<Rightarrow> Some dt),
               done = (case done_kw of None \<Rightarrow> False | Some b \<Rightarrow> b)\<rparr>
      | _ \<Rightarrow>
          Inl (ValidationError
            ((case title_kw of None \<Rightarrow> [Missing ''title''] | Some _ \<Rightarrow> []) @
             (case description_kw of None \<Rightarrow> [Missing ''description''] | Some _ \<Rightarrow> []))))"

subsection \<open>Dates in ISO format\<close>

definition digit :: "char \<Rightarrow> nat option" where
  "digit c = (let n = (of_char c :: nat) in if 48 \<le> n \<and> n \<le> 57 then Some (n - 48) else None)"

fun number :: "string \<Rightarrow> nat option" where
  "number [] = None"
| "number cs =
     foldl (\<lambda>acc c. case (acc, digit c) of (Some a, Some d) \<Rightarrow> Some (10 * a + d) | _ \<Rightarrow> None)
       (Some 0) cs"

definition is_leap :: "nat \<Rightarrow> bool" where
  "is_leap y = (if y mod 100 = 0 then y mod 400 = 0 else y mod 4 = 0)"

definition days_in_month :: "nat \<Rightarrow> nat \<Rightarrow> nat" where
  "days_in_month y m =
     (if m = 2 then (if is_leap y then 29 else 28)
      else if m = 4 \<or> m = 6 \<or> m = 9 \<or> m = 11 then 30 else 31)"

definition valid_datetime :: "datetime \<Rightarrow> bool" where
  "valid_datetime d =
     (1 \<le> year d \<and> year d \<le> 9999 \<and> 1 \<le> month d \<and> month d \<le> 12 \<and>
      1 \<le> day d \<and> day d \<le> days_in_month (year d) (month d) \<and>
      hour d < 24 \<and> minute d < 60 \<and> second d < 60)"

text \<open>
  The format \<^verbatim>\<open>YYYY-MM-DDTHH:MM:SS\<close>, the one the notebook's example uses. Pydantic
  reads more formats than this one; a string this function accepts is one that pydantic
  accepts as well.
\<close>

definition parse_datetime :: "string \<Rightarrow> datetime option" where
  "parse_datetime s =
     (if length s = 19 \<and> s ! 4 = CHR ''-'' \<and> s ! 7 = CHR ''-'' \<and> s ! 10 = CHR ''T'' \<and>
         s ! 13 = CHR '':'' \<and> s ! 16 = CHR '':''
      then
        (case (number (take 4 s), number (take 2 (drop 5 s)), number (take 2 (drop 8 s)),
               number (take 2 (drop 11 s)), number (take 2 (drop 14 s)),
               number (take 2 (drop 17 s))) of
           (Some y, Some mo, Some d, Some h, Some mi, Some se) \<Rightarrow>
             (let dt = \<lparr>year = y, month = mo, day = d, hour = h, minute = mi, second = se\<rparr>
              in if valid_datetime dt then Some dt else None)
         | _ \<Rightarrow> None)
      else None)"

definition fixed :: "nat \<Rightarrow> nat \<Rightarrow> string" where
  "fixed w n = map (\<lambda>i. char_of (48 + (n div 10 ^ (w - 1 - i)) mod 10)) [0..<w]"

text \<open>\<^verbatim>\<open>datetime.isoformat()\<close>.\<close>

definition isoformat :: "datetime \<Rightarrow> string" where
  "isoformat d =
     fixed 4 (year d) @ ''-'' @ fixed 2 (month d) @ ''-'' @ fixed 2 (day d) @ ''T'' @
     fixed 2 (hour d) @ '':'' @ fixed 2 (minute d) @ '':'' @ fixed 2 (second d)"

subsection \<open>Validating JSON against the models\<close>

text \<open>
  A JSON object is read as Python reads it: of two members with the same key the later
  one counts.
\<close>

definition json_member :: "(string \<times> json) list \<Rightarrow> string \<Rightarrow> json option" where
  "json_member kvs k = map_of (rev kvs) k"

fun validate_str :: "string \<Rightarrow> json option \<Rightarrow> verr list + string" where
  "validate_str n None = Inl [Missing n]"
| "validate_str n (Some (JString s)) = Inr s"
| "validate_str n (Some _) = Inl [WrongType n]"

fun validate_bool :: "string \<Rightarrow> bool \<Rightarrow> json option \<Rightarrow> verr list + bool" where
  "validate_bool n dflt None = Inr dflt"
| "validate_bool n dflt (Some (JBool b)) = Inr b"
| "validate_bool n dflt (Some _) = Inl [WrongType n]"

fun validate_datetime :: "string \<Rightarrow> json option \<Rightarrow> verr list + datetime option" where
  "validate_datetime n None = Inr None"
| "validate_datetime n (Some (JString s)) =
     (case parse_datetime s of None \<Rightarrow> Inl [WrongType n] | Some d \<Rightarrow> Inr (Some d))"
| "validate_datetime n (Some _) = Inl [WrongType n]"

definition errs :: "verr list + 'a \<Rightarrow> verr list" where
  "errs r = (case r of Inl es \<Rightarrow> es | Inr _ \<Rightarrow> [])"

definition parse_ToDo :: "json \<Rightarrow> verr list + ToDo" where
  "parse_ToDo j =
     (case j of
        JObject kvs \<Rightarrow>
          (let t = validate_str ''title'' (json_member kvs ''title'');
               d = validate_str ''description'' (json_member kvs ''description'');
               dd = validate_datetime ''due_date'' (json_member kvs ''due_date'');
               dn = validate_bool ''done'' False (json_member kvs ''done'')
           in case (t, d, dd, dn) of
                (Inr t', Inr d', Inr dd', Inr dn') \<Rightarrow>
                  Inr \<lparr>title = t', description = d', due_date = dd', done = dn'\<rparr>
              | _ \<Rightarrow> Inl (errs t @ errs d @ errs dd @ errs dn))
      | _ \<Rightarrow> Inl [WrongType ''ToDo''])"

fun collect :: "(verr list + 'a) list \<Rightarrow> verr list + 'a list" where
  "collect [] = Inr []"
| "collect (r # rs) =
     (case (r, collect rs) of
        (Inr x, Inr xs) \<Rightarrow> Inr (x # xs)
      | (_, rest) \<Rightarrow> Inl (errs r @ errs rest))"

definition parse_ToDoState :: "json \<Rightarrow> verr list + ToDo list ToDoState" where
  "parse_ToDoState j =
     (case j of
        JObject kvs \<Rightarrow>
          (case json_member kvs ''todos'' of
             None \<Rightarrow> Inr \<lparr>todos = []\<rparr>
           | Some (JArray js) \<Rightarrow>
               (case collect (map parse_ToDo js) of
                  Inl es \<Rightarrow> Inl es
                | Inr ts \<Rightarrow> Inr \<lparr>todos = ts\<rparr>)
           | Some _ \<Rightarrow> Inl [WrongType ''todos''])
      | _ \<Rightarrow> Inl [WrongType ''ToDoState''])"

definition parse_ToDoResponse :: "json \<Rightarrow> verr list + ToDo list ToDoResponse" where
  "parse_ToDoResponse j =
     (case j of
        JObject kvs \<Rightarrow>
          (let c = validate_str ''content'' (json_member kvs ''content'');
               s = (case json_member kvs ''state'' of
                      None \<Rightarrow> Inl [Missing ''state'']
                    | Some sj \<Rightarrow> parse_ToDoState sj)
           in case (c, s) of
                (Inr c', Inr s') \<Rightarrow> Inr \<lparr>content = c', state = s'\<rparr>
              | _ \<Rightarrow> Inl (errs c @ errs s))
      | _ \<Rightarrow> Inl [WrongType ''ToDoResponse''])"

subsection \<open>Serialising the models\<close>

text \<open>One member for each declared field, in the order of the declaration.\<close>

definition ToDo_json :: "ToDo \<Rightarrow> json" where
  "ToDo_json t = JObject
     [(''title'', JString (title t)),
      (''description'', JString (description t)),
      (''due_date'', (case due_date t of None \<Rightarrow> JNull | Some d \<Rightarrow> JString (isoformat d))),
      (''done'', JBool (done t))]"

definition ToDoState_json :: "ToDo list ToDoState \<Rightarrow> json" where
  "ToDoState_json s = JObject [(''todos'', JArray (map ToDo_json (todos s)))]"

definition ToDoResponse_json :: "ToDo list ToDoResponse \<Rightarrow> json" where
  "ToDoResponse_json r = JObject
     [(''content'', JString (content r)), (''state'', ToDoState_json (state r))]"

text \<open>The response the notebook shows below its mock request.\<close>

definition example_response :: json where
  "example_response = JObject
     [(''content'', JString ''You have an appointment with Craig tomorrow at 9AM.''),
      (''state'', JObject
        [(''todos'', JArray
          [JObject
            [(''title'', JString ''Appointment with Craig''),
             (''description'', JString ''Meeting with Craig tomorrow at 9AM''),
             (''due_date'', JString ''2023-07-19T09:00:00''),
             (''done'', JBool False)]])])]"

subsection \<open>Instances and the store\<close>

text \<open>
  A Python list is an object: two names can hold the same list, and an append through
  one is seen through the other. The store holds the list objects; a reference is an
  index into it, and a new object gets the next free index. An instance of
  \<^verbatim>\<open>ToDoState\<close> holds a reference to its list. References are made by allocation
  only, so every reference that the program holds points into the store; nothing is
  claimed about a reference that does not.

  The \<open>calls\<close> component is not part of the program. It records every invocation of
  the AI application (description, to-dos and update it was given), so that how often
  the handler invokes it can be stated.
\<close>

type_synonym ref = nat

record ai_call =
  call_description :: string
  call_todos :: "ToDo list"
  call_update :: string

record world =
  objects :: "ToDo list list"
  calls :: "ai_call list"

definition alloc :: "ToDo list \<Rightarrow> world \<Rightarrow> ref \<times> world" where
  "alloc xs w = (length (objects w), w\<lparr>objects := objects w @ [xs]\<rparr>)"

definition snapshot :: "world \<Rightarrow> ref ToDoState \<Rightarrow> ToDo list ToDoState" where
  "snapshot w s = \<lparr>todos = objects w ! todos s\<rparr>"

text \<open>\<^verbatim>\<open>s.todos.append(t)\<close>.\<close>

definition todos_append :: "ref ToDoState \<Rightarrow> ToDo \<Rightarrow> world \<Rightarrow> world" where
  "todos_append s t w = w\<lparr>objects := (objects w)[todos s := objects w ! todos s @ [t]]\<rparr>"

text \<open>
  The class statement of \<^verbatim>\<open>ToDoState\<close> evaluates the default \<^verbatim>\<open>[]\<close> of \<^verbatim>\<open>todos\<close> once:
  it is the first object of the store.
\<close>

definition todos_default :: ref where
  "todos_default = 0"

definition class_world :: world where
  "class_world = \<lparr>objects = [[]], calls = []\<rparr>"

text \<open>
  \<^verbatim>\<open>ToDoState()\<close>: pydantic gives the new instance a copy of the default, not the
  default object itself.
\<close>

definition ToDoState_new :: "world \<Rightarrow> ref ToDoState \<times> world" where
  "ToDoState_new w = (let (r, w') = alloc (objects w ! todos_default) w in (\<lparr>todos = r\<rparr>, w'))"

text \<open>An instance built from validated data, and \<^verbatim>\<open>copy.deepcopy\<close> of an instance.\<close>

definition ToDoState_of :: "ToDo list ToDoState \<Rightarrow> world \<Rightarrow> ref ToDoState \<times> world" where
  "ToDoState_of d w = (let (r, w') = alloc (todos d) w in (\<lparr>todos = r\<rparr>, w'))"

definition deepcopy :: "ref ToDoState \<Rightarrow> world \<Rightarrow> ref ToDoState \<times> world" where
  "deepcopy s w = (let (r, w') = alloc (objects w ! todos s) w in (\<lparr>todos = r\<rparr>, w'))"

text \<open>
  \<^verbatim>\<open>def run(update: str, state: ToDoState = ToDoState())\<close>: the default of \<^verbatim>\<open>state\<close> is
  evaluated once, when the \<^verbatim>\<open>def\<close> statement runs, and \<open>module_world\<close> is the world
  after the cell has run.
\<close>

definition run_state_default :: "ref ToDoState" where
  "run_state_default = fst (ToDoState_new class_world)"

definition module_world :: world where
  "module_world = snd (ToDoState_new class_world)"

subsection \<open>The AI application\<close>

text \<open>
  What the assistant does is a parameter: given the description of the application,
  the to-dos and the update, it raises or answers with a text and the new to-dos. It
  also decides how the application takes the new to-dos up: by changing the list of its
  state in place, or by putting a new state in place of the old one.
\<close>

record ai_result =
  reply :: string
  new_todos :: "ToDo list"
  in_place :: bool

type_synonym assistant = "string \<Rightarrow> ToDo list \<Rightarrow> string \<Rightarrow> error + ai_result"

record AIApplication =
  app_state :: "ref ToDoState"
  app_description :: string

record Message =
  message_content :: string

text \<open>
  Modelled from the spec: \<^verbatim>\<open>marvin.beta.applications.AIApplication\<close> is not among the
  sources. The spec calls it an external, opaque component that accepts free-text
  instructions and a state object and returns a textual response plus updated state.
  \<open>AIApplication_call\<close> is \<^verbatim>\<open>todo(update)\<close>: it returns the response and the
  application, whose state is the updated one.
\<close>

definition AIApplication_init :: "ref ToDoState \<Rightarrow> string \<Rightarrow> AIApplication" where
  "AIApplication_init st descr = \<lparr>app_state = st, app_description = descr\<rparr>"

definition AIApplication_call ::
  "assistant \<Rightarrow> AIApplication \<Rightarrow> string \<Rightarrow> world \<Rightarrow> (error + Message \<times> AIApplication) \<times> world" where
  "AIApplication_call ai app update w =
     (let r = todos (app_state app);
          c = \<lparr>call_description = app_description app, call_todos = objects w ! r,
               call_update = update\<rparr>;
          w1 = w\<lparr>calls := calls w @ [c]\<rparr>
      in case ai (app_description app) (objects w ! r) update of
           Inl e \<Rightarrow> (Inl e, w1)
         | Inr res \<Rightarrow>
             if in_place res
             then (Inr (\<lparr>message_content = reply res\<rparr>, app),
                   w1\<lparr>objects := (objects w1)[r := new_todos res]\<rparr>)
             else (let (st', w2) = ToDoState_of \<lparr>todos = new_todos res\<rparr> w1
                   in (Inr (\<lparr>message_content = reply res\<rparr>, app\<lparr>app_state := st'\<rparr>), w2)))"

subsection \<open>The handler\<close>

definition run ::
  "assistant \<Rightarrow> string \<Rightarrow> ref ToDoState \<Rightarrow> world \<Rightarrow> (error + ref ToDoResponse) \<times> world" where
  "run ai update st w =
     (let description =
            ''A simple to-do tracker. Users will give instructions '' @
            ''to add, remove, and update their to-dos.'';
          todo = AIApplication_init st description
      in case AIApplication_call ai todo update w of
           (Inl e, w') \<Rightarrow> (Inl e, w')
         | (Inr (response, todo'), w') \<Rightarrow>
             (Inr \<lparr>content = message_content response, state = app_state todo'\<rparr>, w'))"

text \<open>The description that \<^verbatim>\<open>run\<close> gives every application it builds.\<close>

definition tracker_description :: string where
  "tracker_description =
     ''A simple to-do tracker. Users will give instructions to add, remove, and update their to-dos.''"

subsection \<open>Routes\<close>

text \<open>
  An application is the list of the routes registered on it by the notebook, in the
  order of registration. \<^verbatim>\<open>add_api_route\<close> without a \<^verbatim>\<open>methods\<close> argument registers a
  GET route, as the decorator \<^verbatim>\<open>app.get\<close> does. The routes that FastAPI adds by itself
  for its documentation pages are kept apart, in \<open>documentation_routes\<close>; what an
  application serves is both.
\<close>

datatype http_method = GET | HEAD | POST | PUT | DELETE

datatype endpoint =
    generate_fruits | generate_vegetables | Person_route | run_handler
  | openapi | swagger_ui_html | swagger_ui_redirect | redoc_html

record route =
  route_path :: string
  route_endpoint :: endpoint
  route_methods :: "http_method list"

definition FastAPI :: "route list" where
  "FastAPI = []"

definition add_api_route :: "string \<Rightarrow> endpoint \<Rightarrow> route list \<Rightarrow> route list" where
  "add_api_route path f app =
     app @ [\<lparr>route_path = path, route_endpoint = f, route_methods = [GET]\<rparr>]"

definition app_get :: "string \<Rightarrow> endpoint \<Rightarrow> route list \<Rightarrow> route list" where
  "app_get path f app =
     app @ [\<lparr>route_path = path, route_endpoint = f, route_methods = [GET]\<rparr>]"

text \<open>The two applications of the notebook: each cell starts from \<^verbatim>\<open>app = FastAPI()\<close>.\<close>

definition gateway_app :: "route list" where
  "gateway_app =
     add_api_route ''/person/extract'' Person_route
       (add_api_route ''/generate_vegetables'' generate_vegetables
         (add_api_route ''/generate_fruits'' generate_fruits FastAPI))"

definition todo_app :: "route list" where
  "todo_app = app_get ''/'' run_handler FastAPI"

text \<open>
  \<^verbatim>\<open>FastAPI()\<close> with no arguments sets up four routes of its own before any other is
  registered: the OpenAPI schema, the two pages of the interactive documentation and
  the redirect page of the first. They answer GET and HEAD.
\<close>

definition documentation_routes :: "route list" where
  "documentation_routes =
     [\<lparr>route_path = ''/openapi.json'', route_endpoint = openapi, route_methods = [GET, HEAD]\<rparr>,
      \<lparr>route_path = ''/docs'', route_endpoint = swagger_ui_html, route_methods = [GET, HEAD]\<rparr>,
      \<lparr>route_path = ''/docs/oauth2-redirect'', route_endpoint = swagger_ui_redirect,
       route_methods = [GET, HEAD]\<rparr>,
      \<lparr>route_path = ''/redoc'', route_endpoint = redoc_html, route_methods = [GET, HEAD]\<rparr>]"

definition served :: "route list \<Rightarrow> route list" where
  "served app = documentation_routes @ app"

definition serves_get :: "route \<Rightarrow> bool" where
  "serves_get r = (GET \<in> set (route_methods r))"

text \<open>
  The parameters of \<^verbatim>\<open>run\<close> as declared, and where FastAPI takes a parameter from: a
  parameter of a plain type is a query parameter, a parameter that is a model or a list
  is read from the body.
\<close>

definition run_params :: "field_decl list" where
  "run_params =
     [\<lparr>field_name = ''update'', field_type = Str, field_default = Required\<rparr>,
      \<lparr>field_name = ''state'', field_type = ModelOf ''ToDoState'',
       field_default = DefaultCall ''ToDoState''\<rparr>]"

datatype param_source = Query | Body

fun source_of :: "pytype \<Rightarrow> param_source" where
  "source_of (ModelOf _) = Body"
| "source_of (ListOf _) = Body"
| "source_of _ = Query"

subsection \<open>A request to the to-do route\<close>

record request =
  query :: "(string \<times> string) list"
  body :: "json option"

text \<open>Calling the handler with a state and serialising what it returns.\<close>

definition response_data :: "world \<Rightarrow> ref ToDoResponse \<Rightarrow> ToDo list ToDoResponse" where
  "response_data w r = \<lparr>content = content r, state = snapshot w (state r)\<rparr>"

definition respond ::
  "assistant \<Rightarrow> string \<Rightarrow> ref ToDoState \<times> world \<Rightarrow> (error + json) \<times> world" where
  "respond ai update sw =
     (case run ai update (fst sw) (snd sw) of
        (Inl e, w') \<Rightarrow> (Inl e, w')
      | (Inr r, w') \<Rightarrow> (Inr (ToDoResponse_json (response_data w' r)), w'))"

text \<open>
  What FastAPI does with a request that reaches the route: it reads \<^verbatim>\<open>update\<close> from the
  query string (of a repeated parameter the last value counts) and \<^verbatim>\<open>state\<close> from the
  body, reports every parameter it cannot bind, and gives a parameter that is left out a
  deep copy of its default.
\<close>

definition bind_update :: "request \<Rightarrow> verr list + string" where
  "bind_update req =
     (case map_of (rev (query req)) ''update'' of
        None \<Rightarrow> Inl [Missing ''update'']
      | Some u \<Rightarrow> Inr u)"

definition bind_state :: "request \<Rightarrow> verr list + ToDo list ToDoState option" where
  "bind_state req =
     (case body req of
        None \<Rightarrow> Inr None
      | Some j \<Rightarrow> (case parse_ToDoState j of Inl es \<Rightarrow> Inl es | Inr d \<Rightarrow> Inr (Some d)))"

definition todo_endpoint :: "assistant \<Rightarrow> request \<Rightarrow> world \<Rightarrow> (error + json) \<times> world" where
  "todo_endpoint ai req w =
     (case (bind_update req, bind_state req) of
        (Inr update, Inr None) \<Rightarrow> respond ai update (deepcopy run_state_default w)
      | (Inr update, Inr (Some d)) \<Rightarrow> respond ai update (ToDoState_of d w)
      | (u, s) \<Rightarrow> (Inl (RequestValidationError (errs u @ errs s)), w))"

text \<open>The world after a sequence of requests, each answered by some assistant.\<close>

fun serve :: "(assistant \<times> request) list \<Rightarrow> world \<Rightarrow> world" where
  "serve [] w = w"
| "serve ((ai, req) # rest) w = serve rest (snd (todo_endpoint ai req w))"

text \<open>
  The two objects that outlive a request, the default list of the class and the list of
  the default state of \<^verbatim>\<open>run\<close>, are there and empty.
\<close>

definition intact :: "world \<Rightarrow> bool" where
  "intact w =
     (todos_default < length (objects w) \<and> objects w ! todos_default = [] \<and>
      todos run_state_default < length (objects w) \<and> objects w ! todos run_state_default = [])"

text \<open>
  The same request answered without any world: the response as a function of the
  request and of the assistant alone.
\<close>

definition stateless_response :: "assistant \<Rightarrow> request \<Rightarrow> error + json" where
  "stateless_response ai req =
     (case (bind_update req, bind_state req) of
        (Inr update, Inr given) \<Rightarrow>
          (case ai tracker_description (case given of None \<Rightarrow> [] | Some d \<Rightarrow> todos d)
                   update of
             Inl e \<Rightarrow> Inl e
           | Inr res \<Rightarrow>
               Inr (ToDoResponse_json \<lparr>content = reply res, state = \<lparr>todos = new_todos res\<rparr>\<rparr>))
      | (u, s) \<Rightarrow> Inl (RequestValidationError (errs u @ errs s)))"

text \<open>
  An assistant to run the definitions on: it files the update as a new to-do at the end
  of the list, in place, and refuses an empty update.
\<close>

definition filing_assistant :: assistant where
  "filing_assistant descr ts update =
     (if update = [] then Inl (AIError ''nothing to do'')
      else Inr \<lparr>reply = ''Noted: '' @ update,
                new_todos = ts @ [\<lparr>title = update, description = descr, due_date = None,
                                   done = False\<rparr>],
                in_place = True\<rparr>)"

section \<open>Properties\<close>

subsection \<open>What one call of the handler does to the world\<close>

lemma run_description:
  "''A simple to-do tracker. Users will give instructions '' @ ''to add, remove, and update their to-dos.'' = tracker_description"
  by (simp add: tracker_description_def)

lemma run_unfold:
  "run ai update st w =
     (case AIApplication_call ai (AIApplication_init st tracker_description) update w of
           (Inl e, w') \<Rightarrow> (Inl e, w')
         | (Inr (response, todo'), w') \<Rightarrow>
             (Inr \<lparr>content = message_content response, state = app_state todo'\<rparr>, w'))"
  unfolding run_def Let_def run_description ..

lemma call_cases:
  "AIApplication_call ai (AIApplication_init st descr) update w =
     (case ai descr (objects w ! todos st) update of
        Inl e \<Rightarrow>
          (Inl e, w\<lparr>calls := calls w @ [\<lparr>call_description = descr,
             call_todos = objects w ! todos st, call_update = update\<rparr>]\<rparr>)
      | Inr res \<Rightarrow>
          if in_place res
          then (Inr (\<lparr>message_content = reply res\<rparr>, AIApplication_init st descr),
                \<lparr>objects = (objects w)[todos st := new_todos res],
                 calls = calls w @ [\<lparr>call_description = descr,
                   call_todos = objects w ! todos st, call_update = update\<rparr>]\<rparr>)
          else (Inr (\<lparr>message_content = reply res\<rparr>,
                     AIApplication_init \<lparr>todos = length (objects w)\<rparr> descr),
                \<lparr>objects = objects w @ [new_todos res],
                 calls = calls w @ [\<lparr>call_description = descr,
                   call_todos = objects w ! todos st, call_update = update\<rparr>]\<rparr>))"
  by (simp add: AIApplication_call_def AIApplication_init_def Let_def ToDoState_of_def alloc_def
      split: sum.split)

lemma run_cases:
  "run ai update st w =
     (case ai tracker_description (objects w ! todos st) update of
        Inl e \<Rightarrow>
          (Inl e, w\<lparr>calls := calls w @ [\<lparr>call_description = tracker_description,
             call_todos = objects w ! todos st, call_update = update\<rparr>]\<rparr>)
      | Inr res \<Rightarrow>
          if in_place res
          then (Inr \<lparr>content = reply res, state = st\<rparr>,
                \<lparr>objects = (objects w)[todos st := new_todos res],
                 calls = calls w @ [\<lparr>call_description = tracker_description,
                   call_todos = objects w ! todos st, call_update = update\<rparr>]\<rparr>)
          else (Inr \<lparr>content = reply res, state = \<lparr>todos = length (objects w)\<rparr>\<rparr>,
                \<lparr>objects = objects w @ [new_todos res],
                 calls = calls w @ [\<lparr>call_description = tracker_description,
                   call_todos = objects w ! todos st, call_update = update\<rparr>]\<rparr>))"
  unfolding run_unfold call_cases by (simp add: AIApplication_init_def split: sum.split)

lemma run_calls:
  "calls (snd (run ai update st w)) =
     calls w @ [\<lparr>call_description = tracker_description, call_todos = objects w ! todos st,
                 call_update = update\<rparr>]"
  by (simp add: run_cases split: sum.split)

lemma run_frame:
  "r < length (objects w) \<Longrightarrow> r \<noteq> todos st \<Longrightarrow> objects (snd (run ai update st w)) ! r = objects w ! r"
  by (simp add: run_cases nth_append split: sum.split)

lemma run_grows: "length (objects w) \<le> length (objects (snd (run ai update st w)))"
  by (simp add: run_cases split: sum.split)

lemma respond_cases:
  assumes "todos st < length (objects w)"
  shows "fst (respond ai update (st, w)) =
     (case ai tracker_description (objects w ! todos st) update of
        Inl e \<Rightarrow> Inl e
      | Inr res \<Rightarrow>
          Inr (ToDoResponse_json \<lparr>content = reply res, state = \<lparr>todos = new_todos res\<rparr>\<rparr>))"
  using assms
  by (simp add: respond_def run_cases response_data_def snapshot_def split: sum.split)

lemma respond_frame:
  "r < length (objects w) \<Longrightarrow> r \<noteq> todos st \<Longrightarrow>
     objects (snd (respond ai update (st, w))) ! r = objects w ! r"
  by (simp add: respond_def run_cases nth_append split: sum.split)

lemma respond_grows: "length (objects w) \<le> length (objects (snd (respond ai update (st, w))))"
  by (simp add: respond_def run_cases split: sum.split)


lemma run_state_default_eq: "run_state_default = \<lparr>todos = Suc 0\<rparr>"
  by (simp add: run_state_default_def ToDoState_new_def class_world_def alloc_def)

lemma module_world_eq: "module_world = \<lparr>objects = [[], []], calls = []\<rparr>"
  by (simp add: module_world_def ToDoState_new_def class_world_def alloc_def todos_default_def)

lemma intact_iff:
  "intact w \<longleftrightarrow> Suc 0 < length (objects w) \<and> objects w ! 0 = [] \<and> objects w ! Suc 0 = []"
  by (auto simp: intact_def todos_default_def run_state_default_eq)

lemma intact_module: "intact module_world"
  by (simp add: intact_iff module_world_eq)

lemma deepcopy_eq:
  "deepcopy s w = (\<lparr>todos = length (objects w)\<rparr>, w\<lparr>objects := objects w @ [objects w ! todos s]\<rparr>)"
  by (simp add: deepcopy_def alloc_def)

lemma ToDoState_of_eq:
  "ToDoState_of d w = (\<lparr>todos = length (objects w)\<rparr>, w\<lparr>objects := objects w @ [todos d]\<rparr>)"
  by (simp add: ToDoState_of_def alloc_def)

lemma ToDoState_new_eq:
  "ToDoState_new w =
     (\<lparr>todos = length (objects w)\<rparr>, w\<lparr>objects := objects w @ [objects w ! todos_default]\<rparr>)"
  by (simp add: ToDoState_new_def alloc_def)

lemma respond_fresh:
  "fst (respond ai update (\<lparr>todos = length (objects w)\<rparr>, w\<lparr>objects := objects w @ [ts]\<rparr>)) =
     (case ai tracker_description ts update of
        Inl e \<Rightarrow> Inl e
      | Inr res \<Rightarrow>
          Inr (ToDoResponse_json \<lparr>content = reply res, state = \<lparr>todos = new_todos res\<rparr>\<rparr>))"
  by (simp add: respond_cases)

lemma respond_fresh_frame:
  assumes "r < length (objects w)"
  shows "objects (snd (respond ai update
           (\<lparr>todos = length (objects w)\<rparr>, w\<lparr>objects := objects w @ [ts]\<rparr>))) ! r = objects w ! r"
  using assms by (simp add: respond_frame nth_append)

lemma respond_fresh_grows:
  "length (objects w) \<le> length (objects (snd (respond ai update
           (\<lparr>todos = length (objects w)\<rparr>, w\<lparr>objects := objects w @ [ts]\<rparr>))))"
  using respond_grows [of "w\<lparr>objects := objects w @ [ts]\<rparr>" ai update "\<lparr>todos = length (objects w)\<rparr>"]
  by simp

lemma endpoint_frame:
  assumes "r < length (objects w)"
  shows "objects (snd (todo_endpoint ai req w)) ! r = objects w ! r"
  using assms
  by (simp add: todo_endpoint_def deepcopy_eq ToDoState_of_eq respond_fresh_frame
      split: sum.split option.split)

lemma endpoint_grows: "length (objects w) \<le> length (objects (snd (todo_endpoint ai req w)))"
  by (simp add: todo_endpoint_def deepcopy_eq ToDoState_of_eq respond_fresh_grows
      split: sum.split option.split)

lemma endpoint_intact:
  assumes "intact w"
  shows "intact (snd (todo_endpoint ai req w))"
proof -
  from assms have len: "Suc 0 < length (objects w)"
    and zero: "objects w ! 0 = []" and one: "objects w ! Suc 0 = []"
    by (simp_all add: intact_iff)
  have "0 < length (objects w)" using len by (cases "objects w") simp_all
  then have "objects (snd (todo_endpoint ai req w)) ! 0 = []"
    using endpoint_frame [of 0 w ai req] zero by simp
  moreover have "objects (snd (todo_endpoint ai req w)) ! Suc 0 = []"
    using endpoint_frame [OF len, of ai req] one by simp
  moreover have "Suc 0 < length (objects (snd (todo_endpoint ai req w)))"
    using len endpoint_grows [of w ai req] by simp
  ultimately show ?thesis by (simp add: intact_iff)
qed

lemma serve_intact: "intact w \<Longrightarrow> intact (serve history w)"
  by (induction history w rule: serve.induct) (simp_all add: endpoint_intact)

lemma endpoint_stateless:
  assumes "intact w"
  shows "fst (todo_endpoint ai req w) = stateless_response ai req"
proof -
  from assms have one: "objects w ! Suc 0 = []"
    by (simp add: intact_iff)
  show ?thesis
    by (simp add: todo_endpoint_def stateless_response_def deepcopy_eq ToDoState_of_eq
        respond_fresh run_state_default_eq one split: sum.split option.split)
qed

lemma ToDoResponse_json_shape:
  "\<exists>c ts. ToDoResponse_json r =
     JObject [(''content'', JString c), (''state'', JObject [(''todos'', JArray ts)])]"
  by (simp add: ToDoResponse_json_def ToDoState_json_def)

lemma respond_json:
  "fst (respond ai update sw) = Inr j \<Longrightarrow> \<exists>r. j = ToDoResponse_json r"
  by (auto simp: respond_def split: prod.splits sum.splits)

lemma endpoint_json:
  "fst (todo_endpoint ai req w) = Inr j \<Longrightarrow> \<exists>r. j = ToDoResponse_json r"
  by (auto simp: todo_endpoint_def split: sum.splits option.splits dest: respond_json)

text \<open>A request evaluated: the assistant files \<^verbatim>\<open>buy milk\<close> on the first request ever.\<close>

lemma filing_request:
  "todo_endpoint filing_assistant \<lparr>query = [(''update'', ''buy milk'')], body = None\<rparr> module_world =
     (Inr (JObject [(''content'', JString ''Noted: buy milk''),
        (''state'', JObject [(''todos'', JArray
           [JObject [(''title'', JString ''buy milk''),
                     (''description'', JString tracker_description),
                     (''due_date'', JNull), (''done'', JBool False)]])])]),
      \<lparr>objects = [[], [], [\<lparr>title = ''buy milk'', description = tracker_description,
                               due_date = None, done = False\<rparr>]],
       calls = [\<lparr>call_description = tracker_description, call_todos = [],
                 call_update = ''buy milk''\<rparr>]\<rparr>)"
  by (simp add: todo_endpoint_def bind_update_def bind_state_def deepcopy_eq respond_def run_cases
      run_state_default_eq module_world_eq filing_assistant_def response_data_def snapshot_def
      ToDoResponse_json_def ToDoState_json_def ToDo_json_def)

lemma isoformat_example:
  "isoformat \<lparr>year = 2023, month = 7, day = 19, hour = 9, minute = 0, second = 0\<rparr> =
     ''2023-07-19T09:00:00''"
  by (simp add: isoformat_def fixed_def upt_rec char_of_def bit_0)

subsection \<open>The handler and the application\<close>

text \<open>
  C1. \<^verbatim>\<open>run\<close> builds an \<^verbatim>\<open>AIApplication\<close> from the state it is given and the fixed
  description of the to-do tracker and invokes it on the update. When that call returns,
  \<^verbatim>\<open>run\<close> returns a \<^verbatim>\<open>ToDoResponse\<close> whose content is the content of the response,
  unchanged, and whose state is the state of the application after the call, in the
  world the call has left. The call is the only invocation: the record of invocations
  has grown by one entry, with the description, the to-dos of the given state and the
  update.
\<close>

theorem run_forwards_to_application:
  assumes "AIApplication_call ai (AIApplication_init st tracker_description) update w =
             (Inr (response, todo'), w')"
  shows "run ai update st w =
           (Inr \<lparr>content = message_content response, state = app_state todo'\<rparr>, w') \<and>
         calls w' = calls w @ [\<lparr>call_description = tracker_description,
                                 call_todos = objects w ! todos st, call_update = update\<rparr>]"
proof -
  have r: "run ai update st w =
      (Inr \<lparr>content = message_content response, state = app_state todo'\<rparr>, w')"
    by (simp add: run_unfold assms)
  have "calls (snd (run ai update st w)) = calls w @ [\<lparr>call_description = tracker_description,
      call_todos = objects w ! todos st, call_update = update\<rparr>]"
    by (rule run_calls)
  with r show ?thesis by simp
qed

theorem run_forwards_to_application_witness:
  "run filing_assistant ''buy milk'' \<lparr>todos = 1\<rparr> module_world =
     (Inr \<lparr>content = ''Noted: buy milk'', state = \<lparr>todos = 1\<rparr>\<rparr>,
      \<lparr>objects = [[], [\<lparr>title = ''buy milk'', description = tracker_description,
                          due_date = None, done = False\<rparr>]],
       calls = [\<lparr>call_description = tracker_description, call_todos = [],
                 call_update = ''buy milk''\<rparr>]\<rparr>)"
proof -
  have h: "AIApplication_call filing_assistant (AIApplication_init \<lparr>todos = 1\<rparr> tracker_description)
      ''buy milk'' module_world =
     (Inr (\<lparr>message_content = ''Noted: buy milk''\<rparr>,
           \<lparr>app_state = \<lparr>todos = 1\<rparr>, app_description = tracker_description\<rparr>),
      \<lparr>objects = [[], [\<lparr>title = ''buy milk'', description = tracker_description,
                          due_date = None, done = False\<rparr>]],
       calls = [\<lparr>call_description = tracker_description, call_todos = [],
                 call_update = ''buy milk''\<rparr>]\<rparr>)"
    by (simp add: AIApplication_call_def AIApplication_init_def filing_assistant_def
        module_world_eq Let_def)
  from run_forwards_to_application [OF h] show ?thesis by simp
qed

text \<open>
  C5. \<^verbatim>\<open>run\<close> handles no exception: it raises an error exactly when the assistant,
  asked with the description, the to-dos of the state and the update, raises that
  error, and the error it raises is that one.
\<close>

theorem run_raises_what_assistant_raises:
  "fst (run ai update st w) = Inl e \<longleftrightarrow>
     ai tracker_description (objects w ! todos st) update = Inl e"
  by (simp add: run_cases split: sum.split)

subsection \<open>Routes and the shape of the response\<close>

text \<open>
  C7. The declarative-gateway cell registers three routes and no other, each through
  \<^verbatim>\<open>add_api_route\<close>: \<^verbatim>\<open>generate_fruits\<close> at \<^verbatim>\<open>/generate_fruits\<close>, \<^verbatim>\<open>generate_vegetables\<close>
  at \<^verbatim>\<open>/generate_vegetables\<close> and the route of \<^verbatim>\<open>Person\<close> at \<^verbatim>\<open>/person/extract\<close>.
\<close>

theorem gateway_routes:
  "gateway_app =
     [\<lparr>route_path = ''/generate_fruits'', route_endpoint = generate_fruits,
       route_methods = [GET]\<rparr>,
      \<lparr>route_path = ''/generate_vegetables'', route_endpoint = generate_vegetables,
       route_methods = [GET]\<rparr>,
      \<lparr>route_path = ''/person/extract'', route_endpoint = Person_route,
       route_methods = [GET]\<rparr>]"
  by (simp add: gateway_app_def add_api_route_def FastAPI_def)

text \<open>
  C2, as the claim states it: the to-do service exposes exactly one HTTP GET endpoint.
  The application of the to-do cell serves five: the four that \<^verbatim>\<open>FastAPI()\<close> sets up for
  its documentation, and the one of \<^verbatim>\<open>run\<close>.
\<close>

theorem todo_app_serves_documentation_routes:
  "map route_path (filter serves_get (served todo_app)) =
     [''/openapi.json'', ''/docs'', ''/docs/oauth2-redirect'', ''/redoc'', ''/''] \<and>
   length (filter serves_get (served todo_app)) \<noteq> 1"
  by (simp add: served_def documentation_routes_def todo_app_def app_get_def FastAPI_def
      serves_get_def)

text \<open>
  C2, amended. The to-do cell registers exactly one route of its own, GET at \<^verbatim>\<open>/\<close>, with
  \<^verbatim>\<open>run\<close> behind it; the application serves it after the four documentation routes of
  FastAPI, and it is the only route served at \<^verbatim>\<open>/\<close>. Its parameter \<^verbatim>\<open>update\<close> is a
  string taken from the query, and any string is taken as it is; its parameter \<^verbatim>\<open>state\<close>
  is a \<^verbatim>\<open>ToDoState\<close> taken from the body. A request with an update and a body that
  validates as a state is answered by \<^verbatim>\<open>run\<close> on that update and on an instance made from
  that state, so the assistant is asked with the to-dos of the payload. Whatever the
  route answers without an error is a JSON object with a string under \<^verbatim>\<open>content\<close> and,
  under \<^verbatim>\<open>state\<close>, an object with an array under \<^verbatim>\<open>todos\<close>, and nothing else.
\<close>

theorem todo_route_shape:
  "todo_app = [\<lparr>route_path = ''/'', route_endpoint = run_handler, route_methods = [GET]\<rparr>] \<and>
   served todo_app = documentation_routes @
     [\<lparr>route_path = ''/'', route_endpoint = run_handler, route_methods = [GET]\<rparr>] \<and>
   filter (\<lambda>r. route_path r = ''/'') (served todo_app) =
     [\<lparr>route_path = ''/'', route_endpoint = run_handler, route_methods = [GET]\<rparr>] \<and>
   map (\<lambda>p. (field_name p, field_type p, source_of (field_type p))) run_params =
     [(''update'', Str, Query), (''state'', ModelOf ''ToDoState'', Body)] \<and>
   bind_update \<lparr>query = [(''update'', u)], body = b\<rparr> = Inr u \<and>
   (bind_update req = Inr u' \<and> body req = Some sj \<and> parse_ToDoState sj = Inr d \<longrightarrow>
      todo_endpoint ai req w = respond ai u' (ToDoState_of d w) \<and>
      fst (todo_endpoint ai req w) =
        (case ai tracker_description (todos d) u' of
           Inl e \<Rightarrow> Inl e
         | Inr res \<Rightarrow>
             Inr (ToDoResponse_json \<lparr>content = reply res, state = \<lparr>todos = new_todos res\<rparr>\<rparr>))) \<and>
   (fst (todo_endpoint ai req w) = Inr j \<longrightarrow>
      (\<exists>c ts. j = JObject [(''content'', JString c),
                              (''state'', JObject [(''todos'', JArray ts)])]))"
proof -
  have shape:
    "\<exists>c ts. j = JObject [(''content'', JString c), (''state'', JObject [(''todos'', JArray ts)])]"
    if "fst (todo_endpoint ai req w) = Inr j"
  proof -
    from endpoint_json [OF that] obtain r where "j = ToDoResponse_json r" ..
    with ToDoResponse_json_shape [of r] show ?thesis by simp
  qed
  have payload:
    "todo_endpoint ai req w = respond ai u' (ToDoState_of d w) \<and>
     fst (todo_endpoint ai req w) =
       (case ai tracker_description (todos d) u' of
          Inl e \<Rightarrow> Inl e
        | Inr res \<Rightarrow>
            Inr (ToDoResponse_json \<lparr>content = reply res, state = \<lparr>todos = new_todos res\<rparr>\<rparr>))"
    if "bind_update req = Inr u'" and "body req = Some sj" and "parse_ToDoState sj = Inr d"
  proof -
    have "bind_state req = Inr (Some d)"
      by (simp add: bind_state_def that)
    then have "todo_endpoint ai req w = respond ai u' (ToDoState_of d w)"
      by (simp add: todo_endpoint_def that)
    then show ?thesis
      by (simp add: ToDoState_of_eq respond_fresh)
  qed
  have routes:
    "todo_app = [\<lparr>route_path = ''/'', route_endpoint = run_handler, route_methods = [GET]\<rparr>]"
    "served todo_app = documentation_routes @
       [\<lparr>route_path = ''/'', route_endpoint = run_handler, route_methods = [GET]\<rparr>]"
    "filter (\<lambda>r. route_path r = ''/'') (served todo_app) =
       [\<lparr>route_path = ''/'', route_endpoint = run_handler, route_methods = [GET]\<rparr>]"
    by (simp_all add: todo_app_def app_get_def FastAPI_def served_def documentation_routes_def)
  have params:
    "map (\<lambda>p. (field_name p, field_type p, source_of (field_type p))) run_params =
       [(''update'', Str, Query), (''state'', ModelOf ''ToDoState'', Body)]"
    "bind_update \<lparr>query = [(''update'', u)], body = b\<rparr> = Inr u"
    by (simp_all add: run_params_def bind_update_def)
  from routes params payload shape show ?thesis by blast
qed

text \<open>A request with a state in its body: one to-do comes in, two go out.\<close>

theorem todo_route_shape_witness:
  "fst (todo_endpoint filing_assistant
      \<lparr>query = [(''update'', ''buy milk'')],
       body = Some (JObject [(''todos'', JArray
         [JObject [(''title'', JString ''call Ann''), (''description'', JString ''today'')]])])\<rparr>
      module_world) =
     Inr (JObject [(''content'', JString ''Noted: buy milk''),
        (''state'', JObject [(''todos'', JArray
           [JObject [(''title'', JString ''call Ann''), (''description'', JString ''today''),
                     (''due_date'', JNull), (''done'', JBool False)],
            JObject [(''title'', JString ''buy milk''),
                     (''description'', JString tracker_description),
                     (''due_date'', JNull), (''done'', JBool False)]])])]) \<and>
   (\<exists>c ts. JObject [(''content'', JString ''Noted: buy milk''),
        (''state'', JObject [(''todos'', JArray
           [JObject [(''title'', JString ''call Ann''), (''description'', JString ''today''),
                     (''due_date'', JNull), (''done'', JBool False)],
            JObject [(''title'', JString ''buy milk''),
                     (''description'', JString tracker_description),
                     (''due_date'', JNull), (''done'', JBool False)]])])] =
      JObject [(''content'', JString c), (''state'', JObject [(''todos'', JArray ts)])])"
proof -
  let ?sj = "JObject [(''todos'', JArray
         [JObject [(''title'', JString ''call Ann''), (''description'', JString ''today'')]])]"
  let ?req = "\<lparr>query = [(''update'', ''buy milk'')], body = Some ?sj\<rparr>"
  let ?d = "\<lparr>todos = [\<lparr>title = ''call Ann'', description = ''today'', due_date = None,
                          done = False\<rparr>]\<rparr>"
  let ?j = "JObject [(''content'', JString ''Noted: buy milk''),
        (''state'', JObject [(''todos'', JArray
           [JObject [(''title'', JString ''call Ann''), (''description'', JString ''today''),
                     (''due_date'', JNull), (''done'', JBool False)],
            JObject [(''title'', JString ''buy milk''),
                     (''description'', JString tracker_description),
                     (''due_date'', JNull), (''done'', JBool False)]])])]"
  have h: "bind_update ?req = Inr ''buy milk'' \<and> body ?req = Some ?sj \<and>
      parse_ToDoState ?sj = Inr ?d"
    by (simp add: bind_update_def parse_ToDoState_def parse_ToDo_def json_member_def)
  have a: "filing_assistant tracker_description (todos ?d) ''buy milk'' =
      Inr \<lparr>reply = ''Noted: buy milk'',
           new_todos = [\<lparr>title = ''call Ann'', description = ''today'', due_date = None,
                          done = False\<rparr>,
                        \<lparr>title = ''buy milk'', description = tracker_description,
                          due_date = None, done = False\<rparr>],
           in_place = True\<rparr>"
    by (simp add: filing_assistant_def)
  from todo_route_shape [of "''x''" None ?req "''buy milk''" ?sj ?d filing_assistant
      module_world ?j]
  have p: "bind_update ?req = Inr ''buy milk'' \<and> body ?req = Some ?sj \<and>
      parse_ToDoState ?sj = Inr ?d \<longrightarrow>
      fst (todo_endpoint filing_assistant ?req module_world) =
        (case filing_assistant tracker_description (todos ?d) ''buy milk'' of
           Inl e \<Rightarrow> Inl e
         | Inr res \<Rightarrow>
             Inr (ToDoResponse_json \<lparr>content = reply res, state = \<lparr>todos = new_todos res\<rparr>\<rparr>))"
    and q: "fst (todo_endpoint filing_assistant ?req module_world) = Inr ?j \<longrightarrow>
      (\<exists>c ts. ?j = JObject [(''content'', JString c),
                               (''state'', JObject [(''todos'', JArray ts)])])"
    by blast+
  from p h have "fst (todo_endpoint filing_assistant ?req module_world) =
      (case filing_assistant tracker_description (todos ?d) ''buy milk'' of
         Inl e \<Rightarrow> Inl e
       | Inr res \<Rightarrow>
           Inr (ToDoResponse_json \<lparr>content = reply res, state = \<lparr>todos = new_todos res\<rparr>\<rparr>))"
    by blast
  then have r: "fst (todo_endpoint filing_assistant ?req module_world) = Inr ?j"
    unfolding a by (simp add: ToDoResponse_json_def ToDoState_json_def ToDo_json_def)
  with q show ?thesis by blast
qed

subsection \<open>The data model\<close>

text \<open>
  C9. A \<^verbatim>\<open>ToDo\<close> built from a title and a description alone exists, with \<^verbatim>\<open>due_date\<close>
  \<^verbatim>\<open>None\<close> (the field is declared \<^verbatim>\<open>datetime\<close>, with the default \<^verbatim>\<open>None\<close>) and \<^verbatim>\<open>done\<close>
  \<^verbatim>\<open>False\<close>. The title and the description have no default: leaving either out is a
  validation error that names what is missing.
\<close>

theorem ToDo_init_defaults:
  "ToDo_init (Some t) (Some d) None None =
     Inr \<lparr>title = t, description = d, due_date = None, done = False\<rparr> \<and>
   ToDo_init None (Some d) dd dn = Inl (ValidationError [Missing ''title'']) \<and>
   ToDo_init (Some t) None dd dn = Inl (ValidationError [Missing ''description'']) \<and>
   ToDo_init None None dd dn =
     Inl (ValidationError [Missing ''title'', Missing ''description'']) \<and>
   map (\<lambda>f. (field_name f, field_type f, field_default f)) (model_fields ToDo_decl) =
     [(''title'', Str, Required), (''description'', Str, Required),
      (''due_date'', Datetime, DefaultNone), (''done'', Bool, DefaultFalse)]"
  by (simp add: ToDo_init_def ToDo_decl_def)

text \<open>
  C6. The response that the notebook prints under its mock request validates as a
  \<^verbatim>\<open>ToDoResponse\<close>: the content, and a state with one to-do that has a title, a
  description, the due date 19 July 2023 at nine and \<^verbatim>\<open>done\<close> false. Serialising that
  \<^verbatim>\<open>ToDoResponse\<close> gives the printed response back.
\<close>

theorem example_response_parses:
  "parse_ToDoResponse example_response =
     Inr \<lparr>content = ''You have an appointment with Craig tomorrow at 9AM.'',
          state = \<lparr>todos =
            [\<lparr>title = ''Appointment with Craig'',
              description = ''Meeting with Craig tomorrow at 9AM'',
              due_date = Some \<lparr>year = 2023, month = 7, day = 19, hour = 9, minute = 0,
                                second = 0\<rparr>,
              done = False\<rparr>]\<rparr>\<rparr> \<and>
   ToDoResponse_json
     \<lparr>content = ''You have an appointment with Craig tomorrow at 9AM.'',
      state = \<lparr>todos =
        [\<lparr>title = ''Appointment with Craig'',
          description = ''Meeting with Craig tomorrow at 9AM'',
          due_date = Some \<lparr>year = 2023, month = 7, day = 19, hour = 9, minute = 0,
                            second = 0\<rparr>,
          done = False\<rparr>]\<rparr>\<rparr> = example_response"
proof
  show "parse_ToDoResponse example_response =
     Inr \<lparr>content = ''You have an appointment with Craig tomorrow at 9AM.'',
          state = \<lparr>todos =
            [\<lparr>title = ''Appointment with Craig'',
              description = ''Meeting with Craig tomorrow at 9AM'',
              due_date = Some \<lparr>year = 2023, month = 7, day = 19, hour = 9, minute = 0,
                                second = 0\<rparr>,
              done = False\<rparr>]\<rparr>\<rparr>"
    by code_simp
  show "ToDoResponse_json
     \<lparr>content = ''You have an appointment with Craig tomorrow at 9AM.'',
      state = \<lparr>todos =
        [\<lparr>title = ''Appointment with Craig'',
          description = ''Meeting with Craig tomorrow at 9AM'',
          due_date = Some \<lparr>year = 2023, month = 7, day = 19, hour = 9, minute = 0,
                            second = 0\<rparr>,
          done = False\<rparr>]\<rparr>\<rparr> = example_response"
    by (simp add: ToDoResponse_json_def ToDoState_json_def ToDo_json_def isoformat_example
        example_response_def)
qed

text \<open>
  C3, as the claim states it: the data model has exactly three record types. The
  notebook declares a fourth model, \<^verbatim>\<open>Person\<close>, in its first code cell.
\<close>

theorem notebook_declares_fourth_model:
  "map model_name notebook_models = [''Person'', ''ToDo'', ''ToDoState'', ''ToDoResponse''] \<and>
   map model_name notebook_models \<noteq> [''ToDo'', ''ToDoState'', ''ToDoResponse'']"
  by (simp add: notebook_models_def gateway_models_def todo_models_def Person_decl_def
      ToDo_decl_def ToDoState_decl_def ToDoResponse_decl_def)

text \<open>
  C3, amended. The to-do example declares exactly three record types: \<^verbatim>\<open>ToDo\<close> with a
  title, a description, a due date and a completion flag; \<^verbatim>\<open>ToDoState\<close> with a list of
  \<^verbatim>\<open>ToDo\<close>; \<^verbatim>\<open>ToDoResponse\<close> with a text content and a \<^verbatim>\<open>ToDoState\<close>. The notebook
  declares one more record type, \<^verbatim>\<open>Person\<close>, with a first and a last name, in the
  declarative-gateway example. None of the three has an invariant beyond the types of
  its fields: a \<^verbatim>\<open>ToDo\<close> exists for any title, description, due date and flag; any array
  whose elements validate as to-dos validates as the \<^verbatim>\<open>todos\<close> of a state, in the same
  order; any string with any valid state validates as a response.
\<close>

theorem todo_data_model:
  "map model_name todo_models = [''ToDo'', ''ToDoState'', ''ToDoResponse''] \<and>
   map (\<lambda>f. (field_name f, field_type f)) (model_fields ToDo_decl) =
     [(''title'', Str), (''description'', Str), (''due_date'', Datetime), (''done'', Bool)] \<and>
   map (\<lambda>f. (field_name f, field_type f)) (model_fields ToDoState_decl) =
     [(''todos'', ListOf (ModelOf ''ToDo''))] \<and>
   map (\<lambda>f. (field_name f, field_type f)) (model_fields ToDoResponse_decl) =
     [(''content'', Str), (''state'', ModelOf ''ToDoState'')] \<and>
   notebook_models = Person_decl # todo_models \<and>
   map (\<lambda>f. (field_name f, field_type f)) (model_fields Person_decl) =
     [(''first_name'', Str), (''last_name'', Str)] \<and>
   ToDo_init (Some t) (Some d) (Some dt) (Some b) =
     Inr \<lparr>title = t, description = d, due_date = Some dt, done = b\<rparr> \<and>
   (collect (map parse_ToDo js) = Inr ts \<longrightarrow>
      parse_ToDoState (JObject [(''todos'', JArray js)]) = Inr \<lparr>todos = ts\<rparr>) \<and>
   (parse_ToDoState sj = Inr s \<longrightarrow>
      parse_ToDoResponse (JObject [(''content'', JString c), (''state'', sj)]) =
        Inr \<lparr>content = c, state = s\<rparr>)"
  by (simp add: todo_models_def notebook_models_def gateway_models_def Person_decl_def
      ToDo_decl_def ToDoState_decl_def ToDoResponse_decl_def ToDo_init_def
      parse_ToDoState_def parse_ToDoResponse_def json_member_def)

theorem todo_data_model_witness:
  "parse_ToDoState (JObject [(''todos'', JArray
       [JObject [(''title'', JString ''a''), (''description'', JString ''b'')]])]) =
     Inr \<lparr>todos = [\<lparr>title = ''a'', description = ''b'', due_date = None, done = False\<rparr>]\<rparr> \<and>
   parse_ToDoResponse (JObject [(''content'', JString ''ok''), (''state'', JObject [])]) =
     Inr \<lparr>content = ''ok'', state = \<lparr>todos = []\<rparr>\<rparr>"
proof -
  have h1: "collect (map parse_ToDo
        [JObject [(''title'', JString ''a''), (''description'', JString ''b'')]]) =
      Inr [\<lparr>title = ''a'', description = ''b'', due_date = None, done = False\<rparr>]"
    by (simp add: parse_ToDo_def json_member_def)
  have h2: "parse_ToDoState (JObject []) = Inr \<lparr>todos = []\<rparr>"
    by (simp add: parse_ToDoState_def json_member_def)
  show ?thesis
    using todo_data_model [of "''t''" "''d''"
        "\<lparr>year = 2023, month = 7, day = 19, hour = 9, minute = 0, second = 0\<rparr>" True
        "[JObject [(''title'', JString ''a''), (''description'', JString ''b'')]]"
        "[\<lparr>title = ''a'', description = ''b'', due_date = None, done = False\<rparr>]"
        "JObject []" "\<lparr>todos = []\<rparr>" "''ok''"] h1 h2
    by simp
qed

subsection \<open>Defaults, sharing and what outlives a request\<close>

text \<open>
  C10. Two instances made by \<^verbatim>\<open>ToDoState()\<close> hold different lists, and neither holds
  the default list of the class nor the list of any instance made before. Both lists
  are empty; after an append to the first, the first holds the new to-do, the second
  and the default of the class are still empty, and every state that holds another
  list than the first reads as before.
\<close>

theorem fresh_states_own_their_lists:
  assumes "todos_default < length (objects w)" and "objects w ! todos_default = []"
  shows "(let (a, w1) = ToDoState_new w; (b, w2) = ToDoState_new w1;
              w3 = todos_append a t w2
          in todos a \<noteq> todos b \<and> todos a \<noteq> todos_default \<and> todos b \<noteq> todos_default \<and>
             (\<forall>s. todos s < length (objects w) \<longrightarrow> todos a \<noteq> todos s \<and> todos b \<noteq> todos s) \<and>
             snapshot w2 a = \<lparr>todos = []\<rparr> \<and> snapshot w2 b = \<lparr>todos = []\<rparr> \<and>
             snapshot w3 a = \<lparr>todos = [t]\<rparr> \<and> snapshot w3 b = \<lparr>todos = []\<rparr> \<and>
             objects w3 ! todos_default = [] \<and>
             (\<forall>s. todos s \<noteq> todos a \<longrightarrow> snapshot w3 s = snapshot w2 s))"
  using assms
  by (auto simp: ToDoState_new_eq todos_append_def snapshot_def Let_def nth_append
      todos_default_def)

theorem fresh_states_own_their_lists_witness:
  "(let (a, w1) = ToDoState_new class_world; (b, w2) = ToDoState_new w1;
        w3 = todos_append a \<lparr>title = ''a'', description = ''b'', due_date = None, done = False\<rparr> w2
    in a = \<lparr>todos = 1\<rparr> \<and> b = \<lparr>todos = 2\<rparr> \<and>
       objects w3 = [[], [\<lparr>title = ''a'', description = ''b'', due_date = None, done = False\<rparr>], []] \<and>
       snapshot w3 b = \<lparr>todos = []\<rparr> \<and> snapshot w3 \<lparr>todos = 0\<rparr> = snapshot w2 \<lparr>todos = 0\<rparr>)"
proof -
  have h1: "todos_default < length (objects class_world)"
    by (simp add: todos_default_def class_world_def)
  have h2: "objects class_world ! todos_default = []"
    by (simp add: todos_default_def class_world_def)
  show ?thesis
    using fresh_states_own_their_lists [OF h1 h2,
        of "\<lparr>title = ''a'', description = ''b'', due_date = None, done = False\<rparr>"]
    by (simp add: ToDoState_new_eq todos_append_def snapshot_def Let_def class_world_def
        todos_default_def)
qed

text \<open>
  C8. After any sequence of requests, a request without a state is answered as
  \<^verbatim>\<open>run\<close> answers when called with the update and the instance that \<^verbatim>\<open>ToDoState()\<close>
  makes at that moment, and that instance holds the empty list. The default of the
  parameter \<^verbatim>\<open>state\<close> is \<^verbatim>\<open>ToDoState()\<close>, the default of \<^verbatim>\<open>todos\<close> is \<^verbatim>\<open>[]\<close>, and the
  default state holds the empty list.
\<close>

theorem omitted_state_is_fresh_state:
  assumes "bind_update req = Inr u" and "body req = None"
  shows "todo_endpoint ai req (serve history module_world) =
           respond ai u (ToDoState_new (serve history module_world)) \<and>
         snapshot (snd (ToDoState_new (serve history module_world)))
           (fst (ToDoState_new (serve history module_world))) = \<lparr>todos = []\<rparr> \<and>
         map (\<lambda>p. (field_name p, field_default p)) run_params =
           [(''update'', Required), (''state'', DefaultCall ''ToDoState'')] \<and>
         map (\<lambda>f. (field_name f, field_default f)) (model_fields ToDoState_decl) =
           [(''todos'', DefaultEmptyList)] \<and>
         snapshot module_world run_state_default = \<lparr>todos = []\<rparr>"
proof -
  let ?w = "serve history module_world"
  have "intact ?w"
    by (rule serve_intact [OF intact_module])
  then have zero: "objects ?w ! 0 = []" and one: "objects ?w ! Suc 0 = []"
    by (simp_all add: intact_iff)
  have "bind_state req = Inr None"
    by (simp add: bind_state_def assms)
  then have "todo_endpoint ai req ?w = respond ai u (deepcopy run_state_default ?w)"
    by (simp add: todo_endpoint_def assms)
  also have "deepcopy run_state_default ?w = ToDoState_new ?w"
    by (simp add: deepcopy_eq ToDoState_new_eq run_state_default_eq todos_default_def zero one)
  finally have first: "todo_endpoint ai req ?w = respond ai u (ToDoState_new ?w)" .
  have second: "snapshot (snd (ToDoState_new ?w)) (fst (ToDoState_new ?w)) = \<lparr>todos = []\<rparr>"
    by (simp add: ToDoState_new_eq snapshot_def todos_default_def zero)
  have third: "snapshot module_world run_state_default = \<lparr>todos = []\<rparr>"
    by (simp add: snapshot_def module_world_eq run_state_default_eq)
  from first second third show ?thesis
    by (simp add: run_params_def ToDoState_decl_def)
qed

theorem omitted_state_is_fresh_state_witness:
  "todo_endpoint filing_assistant \<lparr>query = [(''update'', ''buy milk'')], body = None\<rparr>
     (serve [(filing_assistant, \<lparr>query = [(''update'', ''call Ann'')], body = None\<rparr>)]
        module_world) =
   respond filing_assistant ''buy milk''
     (ToDoState_new
       (serve [(filing_assistant, \<lparr>query = [(''update'', ''call Ann'')], body = None\<rparr>)]
          module_world))"
proof -
  have h1: "bind_update \<lparr>query = [(''update'', ''buy milk'')], body = None\<rparr> = Inr ''buy milk''"
    by (simp add: bind_update_def)
  have h2: "body \<lparr>query = [(''update'', ''buy milk'')], body = None\<rparr> = None"
    by simp
  from omitted_state_is_fresh_state [OF h1 h2, of filing_assistant
      "[(filing_assistant, \<lparr>query = [(''update'', ''call Ann'')], body = None\<rparr>)]"]
  show ?thesis by (rule conjunct1)
qed

text \<open>
  C4. After any sequence of earlier requests, whoever answered them, the response to a
  request is the response computed from the request and the assistant alone, so two
  equal requests answered by the same assistant get equal responses whatever came
  before either. The request changes no object that was there before it: what the
  handler works on is made for the request. And two calls of \<^verbatim>\<open>run\<close> with the same
  update and with states that hold equal to-dos, in whatever worlds, give equal
  responses under the same assistant.
\<close>

theorem endpoint_keeps_no_state:
  "fst (todo_endpoint ai req (serve history module_world)) = stateless_response ai req \<and>
   fst (todo_endpoint ai req (serve history module_world)) =
     fst (todo_endpoint ai req (serve history' module_world)) \<and>
   (\<forall>r < length (objects (serve history module_world)).
      objects (snd (todo_endpoint ai req (serve history module_world))) ! r =
      objects (serve history module_world) ! r) \<and>
   (todos st < length (objects w) \<and> todos st' < length (objects w') \<and>
    snapshot w st = snapshot w' st' \<longrightarrow>
      fst (respond ai update (st, w)) = fst (respond ai update (st', w')))"
proof -
  have "intact (serve history module_world)" and "intact (serve history' module_world)"
    by (rule serve_intact [OF intact_module])+
  then have requests:
    "fst (todo_endpoint ai req (serve history module_world)) = stateless_response ai req"
    "fst (todo_endpoint ai req (serve history module_world)) =
       fst (todo_endpoint ai req (serve history' module_world))"
    "\<forall>r < length (objects (serve history module_world)).
       objects (snd (todo_endpoint ai req (serve history module_world))) ! r =
       objects (serve history module_world) ! r"
    by (simp_all add: endpoint_stateless endpoint_frame)
  have calls: "fst (respond ai update (st, w)) = fst (respond ai update (st', w'))"
    if "todos st < length (objects w)" and "todos st' < length (objects w')"
      and "snapshot w st = snapshot w' st'"
  proof -
    from that(3) have "objects w ! todos st = objects w' ! todos st'"
      by (simp add: snapshot_def)
    with that(1,2) show ?thesis
      by (simp add: respond_cases)
  qed
  from requests calls show ?thesis by blast
qed

theorem endpoint_keeps_no_state_witness:
  "fst (todo_endpoint filing_assistant \<lparr>query = [(''update'', ''buy milk'')], body = None\<rparr>
          (serve [(filing_assistant, \<lparr>query = [(''update'', ''buy milk'')], body = None\<rparr>)]
             module_world)) =
     stateless_response filing_assistant \<lparr>query = [(''update'', ''buy milk'')], body = None\<rparr> \<and>
   objects (snd (todo_endpoint filing_assistant
        \<lparr>query = [(''update'', ''buy milk'')], body = None\<rparr>
        (serve [(filing_assistant, \<lparr>query = [(''update'', ''buy milk'')], body = None\<rparr>)]
           module_world))) ! 2 =
     [\<lparr>title = ''buy milk'', description = tracker_description, due_date = None, done = False\<rparr>] \<and>
   fst (respond filing_assistant ''buy milk'' (\<lparr>todos = 1\<rparr>, module_world)) =
     fst (respond filing_assistant ''buy milk'' (\<lparr>todos = 0\<rparr>, module_world))"
proof -
  let ?R = "\<lparr>query = [(''update'', ''buy milk'')], body = None\<rparr>"
  have same: "todos \<lparr>todos = 1\<rparr> < length (objects module_world) \<and>
      todos \<lparr>todos = 0\<rparr> < length (objects module_world) \<and>
      snapshot module_world \<lparr>todos = 1\<rparr> = snapshot module_world \<lparr>todos = 0\<rparr>"
    by (simp add: module_world_eq snapshot_def)
  have w1: "serve [(filing_assistant, ?R)] module_world =
      \<lparr>objects = [[], [], [\<lparr>title = ''buy milk'', description = tracker_description,
                               due_date = None, done = False\<rparr>]],
       calls = [\<lparr>call_description = tracker_description, call_todos = [],
                 call_update = ''buy milk''\<rparr>]\<rparr>"
    by (simp add: filing_request)
  have len: "2 < length (objects (serve [(filing_assistant, ?R)] module_world))"
    unfolding w1 by simp
  have at2: "objects (serve [(filing_assistant, ?R)] module_world) ! 2 =
      [\<lparr>title = ''buy milk'', description = tracker_description, due_date = None, done = False\<rparr>]"
    unfolding w1 by simp
  from endpoint_keeps_no_state [of filing_assistant ?R "[(filing_assistant, ?R)]" "[]"
      "\<lparr>todos = 1\<rparr>" module_world "\<lparr>todos = 0\<rparr>" module_world "''buy milk''"]
  have "fst (todo_endpoint filing_assistant ?R (serve [(filing_assistant, ?R)] module_world)) =
      stateless_response filing_assistant ?R"
    and "\<forall>r < length (objects (serve [(filing_assistant, ?R)] module_world)).
      objects (snd (todo_endpoint filing_assistant ?R
        (serve [(filing_assistant, ?R)] module_world))) ! r =
      objects (serve [(filing_assistant, ?R)] module_world) ! r"
    and "todos \<lparr>todos = 1\<rparr> < length (objects module_world) \<and>
      todos \<lparr>todos = 0\<rparr> < length (objects module_world) \<and>
      snapshot module_world \<lparr>todos = 1\<rparr> = snapshot module_world \<lparr>todos = 0\<rparr> \<longrightarrow>
      fst (respond filing_assistant ''buy milk'' (\<lparr>todos = 1\<rparr>, module_world)) =
      fst (respond filing_assistant ''buy milk'' (\<lparr>todos = 0\<rparr>, module_world))"
    by blast+
  with len at2 same show ?thesis by metis
qed

text \<open>
  What the copy is for. Called directly with its default state, not through a request,
  \<^verbatim>\<open>run\<close> hands the one default object to the application, and an assistant that works
  in place leaves its to-do in it.
\<close>

lemma direct_call_changes_default:
  "snapshot (snd (run filing_assistant ''buy milk'' run_state_default module_world))
     run_state_default =
   \<lparr>todos = [\<lparr>title = ''buy milk'', description = tracker_description, due_date = None,
               done = False\<rparr>]\<rparr>"
  by (simp add: run_cases run_state_default_eq module_world_eq filing_assistant_def snapshot_def)

end
